theory Spec2Isabelle
  imports Main "HOL-Library.AList" "HOL-Library.Char_ord" "HOL-Library.List_Lexorder"
    "HOL-Library.Product_Lexorder" "HOL-Library.Sublist"
begin

section \<open>taskmgr: a line-oriented task manager\<close>

text \<open>
  A shallow embedding of \<^verbatim>\<open>src/taskmgr.py\<close>. A Python string is modelled as a
  \<^typ>\<open>string\<close>, the list of its code points, for the texts whose code points are all
  below 256 (ASCII and the Latin-1 supplement); texts with other characters are outside
  this development. On these code points the character classes used by the program
  (\<^verbatim>\<open>\w\<close>, \<^verbatim>\<open>\s\<close>, \<^verbatim>\<open>\d\<close>, \<^verbatim>\<open>str.isdigit\<close>, \<^verbatim>\<open>str.lower\<close>,
  \<^verbatim>\<open>str.strip\<close>, the white space of \<^verbatim>\<open>int\<close>) are those of CPython 3.11, which
  takes them from the Unicode character database. Python's unbounded integers are
  \<^typ>\<open>int\<close>. The global variables \<^verbatim>\<open>_tasks\<close> and \<^verbatim>\<open>_next_id\<close> are a record
  that every handler takes and returns; an exception is a value \<open>Inl e\<close>, returned
  together with the store as it is at the moment of the raise.
\<close>

subsection \<open>Characters and strings\<close>

text \<open>The code point of a character lies between two bounds.\<close>

definition between :: "nat \<Rightarrow> nat \<Rightarrow> char \<Rightarrow> bool" where
  "between a b c = (a \<le> of_char c \<and> (of_char c :: nat) \<le> b)"

text \<open>
  \<^verbatim>\<open>\d\<close>, and the digits of an integer literal: the decimal digits, which below 256
  are \<^verbatim>\<open>0\<close> to \<^verbatim>\<open>9\<close>.
\<close>

definition is_decimal :: "char \<Rightarrow> bool" where
  "is_decimal c = between 0x30 0x39 c"

text \<open>
  \<^verbatim>\<open>str.isdigit\<close> on one character: the decimal digits and the superscripts two,
  three and one.
\<close>

definition is_digit :: "char \<Rightarrow> bool" where
  "is_digit c = (is_decimal c \<or> c = CHR 0xB2 \<or> c = CHR 0xB3 \<or> c = CHR 0xB9)"

text \<open>
  \<^verbatim>\<open>\w\<close> in a pattern over \<^verbatim>\<open>str\<close>: the underscore and the characters that
  \<^verbatim>\<open>str.isalnum\<close> accepts. Below 256 these are the ASCII letters and digits, the
  ordinal indicators, the micro sign, the superscript digits, the three vulgar
  fractions and the Latin-1 letters (all of 0xC0 to 0xFF but the multiplication and
  the division sign).
\<close>

definition is_word :: "char \<Rightarrow> bool" where
  "is_word c =
     (between 0x30 0x39 c \<or> between 0x41 0x5A c \<or> c = CHR ''_'' \<or> between 0x61 0x7A c
      \<or> c = CHR 0xAA \<or> between 0xB2 0xB3 c \<or> c = CHR 0xB5 \<or> between 0xB9 0xBA c
      \<or> between 0xBC 0xBE c \<or> between 0xC0 0xD6 c \<or> between 0xD8 0xF6 c
      \<or> between 0xF8 0xFF c)"

text \<open>
  \<^verbatim>\<open>\s\<close> and \<^verbatim>\<open>str.isspace\<close>: the characters 0x09 to 0x0D, 0x1C to 0x1F, the
  space, the next-line control 0x85 and the no-break space 0xA0.
\<close>

definition is_space :: "char \<Rightarrow> bool" where
  "is_space c = (between 0x09 0x0D c \<or> between 0x1C 0x20 c \<or> c = CHR 0x85 \<or> c = CHR 0xA0)"

text \<open>\<^verbatim>\<open>s.isdigit()\<close>: a non-empty string of digits.\<close>

definition isdigit :: "string \<Rightarrow> bool" where
  "isdigit s = (s \<noteq> [] \<and> list_all is_digit s)"

text \<open>\<^verbatim>\<open>s.strip()\<close>, \<^verbatim>\<open>s.rstrip("\n")\<close> and \<^verbatim>\<open>s.lower()\<close>.\<close>

definition strip :: "string \<Rightarrow> string" where
  "strip s = rev (dropWhile is_space (rev (dropWhile is_space s)))"

definition rstrip_nl :: "string \<Rightarrow> string" where
  "rstrip_nl s = rev (dropWhile (\<lambda>c. c = CHR 0x0A) (rev s))"

text \<open>
  The upper-case letters below 256 are \<^verbatim>\<open>A\<close> to \<^verbatim>\<open>Z\<close> and 0xC0 to 0xDE without
  the multiplication sign 0xD7; the lower-case form of each is 32 code points on.
\<close>

definition lower_char :: "char \<Rightarrow> char" where
  "lower_char c =
     (if between 0x41 0x5A c \<or> between 0xC0 0xD6 c \<or> between 0xD8 0xDE c
      then char_of (of_char c + (32 :: nat)) else c)"

definition lower :: "string \<Rightarrow> string" where
  "lower s = map lower_char s"

subsection \<open>Integers as text\<close>

definition digit_val :: "char \<Rightarrow> int" where
  "digit_val c = int (of_char c) - 48"

definition digits_val :: "string \<Rightarrow> int" where
  "digits_val s = foldl (\<lambda>a c. 10 * a + digit_val c) 0 s"

text \<open>
  The digit part of an integer literal accepted by \<^verbatim>\<open>int(s)\<close>: decimal digits, with
  single underscores allowed between two digits.
\<close>

fun digits_ok :: "string \<Rightarrow> bool" where
  "digits_ok [] = False"
| "digits_ok [c] = is_decimal c"
| "digits_ok (c # d # cs) =
     (is_decimal c \<and> (if d = CHR ''_'' then digits_ok cs else digits_ok (d # cs)))"

text \<open>
  CPython refuses a literal of more than 4300 digits (its default
  \<^verbatim>\<open>int_max_str_digits\<close>, which the program does not change); the underscores do not
  count.
\<close>

definition parse_digits :: "string \<Rightarrow> int option" where
  "parse_digits s =
     (if digits_ok s \<and> length (filter is_decimal s) \<le> 4300
      then Some (digits_val (filter is_decimal s)) else None)"

text \<open>
  The white space that \<^verbatim>\<open>int(s)\<close> drops around the literal is not that of
  \<^verbatim>\<open>str.strip\<close>: it is 0x09 to 0x0D and the space, and the two white-space
  characters above 0x7F; the separators 0x1C to 0x1F are not dropped.
\<close>

definition is_int_space :: "char \<Rightarrow> bool" where
  "is_int_space c = (between 0x09 0x0D c \<or> c = CHR '' '' \<or> c = CHR 0x85 \<or> c = CHR 0xA0)"

text \<open>
  \<^verbatim>\<open>int(s)\<close> in base ten: white space around the literal is dropped, one sign is
  allowed. \<open>None\<close> is the \<^verbatim>\<open>ValueError\<close>, which every caller in the program catches.
\<close>

definition py_int :: "string \<Rightarrow> int option" where
  "py_int s =
     (case rev (dropWhile is_int_space (rev (dropWhile is_int_space s))) of
        [] \<Rightarrow> None
      | c # cs \<Rightarrow>
          if c = CHR ''-'' then map_option uminus (parse_digits cs)
          else if c = CHR ''+'' then parse_digits cs
          else parse_digits (c # cs))"

text \<open>\<^verbatim>\<open>str(n)\<close> for an integer.\<close>

fun str_nat :: "nat \<Rightarrow> string" where
  "str_nat n =
     (if n < 10 then [''0123456789'' ! n]
      else str_nat (n div 10) @ [''0123456789'' ! (n mod 10)])"

definition str_int :: "int \<Rightarrow> string" where
  "str_int i = (if i < 0 then CHR ''-'' # str_nat (nat (- i)) else str_nat (nat i))"

definition str_bool :: "bool \<Rightarrow> string" where
  "str_bool b = (if b then ''True'' else ''False'')"

subsection \<open>Errors, tasks and the store\<close>

datatype error =
    TooManyArguments | InvalidArgument | InvalidArgumentType | MissingArguments
  | InvalidDateFormat | InvalidRepeat | InvalidPriority | TaskNotFound
  | InvalidDoneStatus | UnknownCommand | TooLongLine

text \<open>
  A task is the dictionary built by \<^verbatim>\<open>cmd_add\<close>; its nine keys are the fields.
\<close>

record task =
  task_name :: string
  task_type :: string
  task_desc :: string
  task_due :: string
  task_rep :: string
  task_prio :: string
  task_done :: bool
  task_ctime :: string
  task_id :: int

record store =
  tasks :: "task list"
  next_id :: int

definition clear_state :: store where
  "clear_state = \<lparr>tasks = [], next_id = 0\<rparr>"

text \<open>
  A Python dictionary of arguments: an association list with distinct keys in
  insertion order; \<^verbatim>\<open>args[key] = val\<close> is \<^const>\<open>AList.update\<close>.
\<close>

type_synonym args = "(string \<times> string) list"

definition PROPERTIES :: "string list" where
  "PROPERTIES =
     [''name'', ''type'', ''desc'', ''due'', ''rep'', ''prio'', ''done'', ''ctime'', ''id'']"

definition VALID_PRIOS :: "string list" where
  "VALID_PRIOS = [''LOW'', ''MEDIUM'', ''HIGH'']"

definition VALID_REPS :: "string list" where
  "VALID_REPS = [''NONE'', ''DAILY'', ''WEEKLY'', ''MONTHLY'']"

definition VALID_DIRECTION :: "string list" where
  "VALID_DIRECTION = [''asc'', ''desc'']"

definition PRIORITY_ORDER :: "string \<Rightarrow> int option" where
  "PRIORITY_ORDER = map_of [(''LOW'', 0), (''MEDIUM'', 1), (''HIGH'', 2)]"

subsection \<open>Dates\<close>

text \<open>
  A \<^verbatim>\<open>datetime.date\<close> is its year, month and day. \<open>valid_date\<close> is the check of
  the constructor (years 1 to 9999), \<open>toordinal\<close> the proleptic Gregorian ordinal.
\<close>

type_synonym date = "nat \<times> nat \<times> nat"

definition is_leap :: "nat \<Rightarrow> bool" where
  "is_leap y = (y mod 4 = 0 \<and> (y mod 100 \<noteq> 0 \<or> y mod 400 = 0))"

definition days_in_month :: "nat \<Rightarrow> nat \<Rightarrow> nat" where
  "days_in_month y m =
     (if m = 2 \<and> is_leap y then 29
      else [0, 31, 28, 31, 30, 31, 30, 31, 31, 30, 31, 30, 31] ! m)"

definition valid_date :: "date \<Rightarrow> bool" where
  "valid_date d =
     (case d of (y, m, dd) \<Rightarrow>
        1 \<le> y \<and> y \<le> 9999 \<and> 1 \<le> m \<and> m \<le> 12 \<and> 1 \<le> dd \<and> dd \<le> days_in_month y m)"

definition toordinal :: "date \<Rightarrow> int" where
  "toordinal d =
     (case d of (y, m, dd) \<Rightarrow>
        int ((y - 1) * 365 + (y - 1) div 4 - (y - 1) div 100 + (y - 1) div 400
             + [0, 0, 31, 59, 90, 120, 151, 181, 212, 243, 273, 304, 334] ! m
             + (if 2 < m \<and> is_leap y then 1 else 0) + dd))"

text \<open>
  The groups of \<^verbatim>\<open>re.fullmatch(r"(\d{1,2})-(\d{1,2})-(\d{4})", s)\<close>: one or two
  digits, a dash, one or two digits, a dash, exactly four digits.
\<close>

definition date_fields :: "string \<Rightarrow> (string \<times> string \<times> string) option" where
  "date_fields s =
     (let d = takeWhile is_decimal s; r = dropWhile is_decimal s in
      if length d \<noteq> 1 \<and> length d \<noteq> 2 then None
      else case r of
        [] \<Rightarrow> None
      | c # r' \<Rightarrow>
          if c \<noteq> CHR ''-'' then None
          else let m = takeWhile is_decimal r'; q = dropWhile is_decimal r' in
            if length m \<noteq> 1 \<and> length m \<noteq> 2 then None
            else case q of
              [] \<Rightarrow> None
            | c' # y \<Rightarrow>
                if c' = CHR ''-'' \<and> length y = 4 \<and> list_all is_decimal y
                then Some (d, m, y) else None)"

definition parse_date_str :: "string \<Rightarrow> error + date option" where
  "parse_date_str s =
     (if s = ''NONE'' then Inr None
      else case date_fields s of
        None \<Rightarrow> Inl InvalidDateFormat
      | Some (d, m, y) \<Rightarrow>
          let dt = (nat (digits_val y), nat (digits_val m), nat (digits_val d)) in
          if valid_date dt then Inr (Some dt) else Inl InvalidDateFormat)"

definition parse_bool_str :: "string \<Rightarrow> error + bool" where
  "parse_bool_str s =
     (if s = ''True'' \<or> s = ''true'' then Inr True
      else if s = ''False'' \<or> s = ''false'' then Inr False
      else Inl InvalidDoneStatus)"

subsection \<open>The tokenizer\<close>

text \<open>
  One attempt of
  \<^verbatim>\<open>(\w+)\s*=\s*(?:"([^"]*)"|'([^']*)'|([^\s]+))\<close>
  at the head of a string. Every repetition of the pattern is followed by a character
  outside its own class (or by the end of an alternative), so the greedy match is the
  only one the backtracking search can complete: the key is the longest run of word
  characters, the white space on both sides of \<^verbatim>\<open>=\<close> is taken whole, and the value
  is the first alternative that applies: text up to the next double quote, text up to
  the next single quote, or the longest run without white space. The result is the
  key, the value and the text after the match.
\<close>

definition match_value :: "string \<Rightarrow> (string \<times> string) option" where
  "match_value s =
     (case s of
        [] \<Rightarrow> None
      | c # cs \<Rightarrow>
          if c = CHR 0x22 \<and> CHR 0x22 \<in> set cs
          then Some (takeWhile (\<lambda>x. x \<noteq> CHR 0x22) cs, tl (dropWhile (\<lambda>x. x \<noteq> CHR 0x22) cs))
          else if c = CHR 0x27 \<and> CHR 0x27 \<in> set cs
          then Some (takeWhile (\<lambda>x. x \<noteq> CHR 0x27) cs, tl (dropWhile (\<lambda>x. x \<noteq> CHR 0x27) cs))
          else if is_space c then None
          else Some (takeWhile (\<lambda>x. \<not> is_space x) s, dropWhile (\<lambda>x. \<not> is_space x) s))"

definition match_pair :: "string \<Rightarrow> (string \<times> string \<times> string) option" where
  "match_pair s =
     (let key = takeWhile is_word s in
      if key = [] then None
      else case dropWhile is_space (dropWhile is_word s) of
        [] \<Rightarrow> None
      | c # r \<Rightarrow>
          if c \<noteq> CHR ''='' then None
          else case match_value (dropWhile is_space r) of
            None \<Rightarrow> None
          | Some (v, rest) \<Rightarrow> Some (key, v, rest))"

text \<open>
  \<^verbatim>\<open>ARG_PAIR_RE.finditer(segment)\<close>: the matches from left to right; where no match
  starts the search moves on by one character, after a match it goes on at its end.
\<close>

function finditer :: "string \<Rightarrow> (string \<times> string \<times> string) list" where
  "finditer s =
     (if s = [] then []
      else case match_pair s of
        None \<Rightarrow> finditer (tl s)
      | Some (k, v, r) \<Rightarrow> (k, v, r) # finditer r)"
  by pat_completeness auto
termination
proof (relation "measure length")
  show "wf (measure length)" by simp
next
  fix s :: string
  assume "s \<noteq> []"
  then show "(tl s, s) \<in> measure length" by (cases s) simp_all
next
  fix s k v r and x2 :: "string \<times> string \<times> string" and y :: "string \<times> string"
  assume "s \<noteq> []" and m: "match_pair s = Some x2" "(k, y) = x2" "(v, r) = y"
  have val: "length b < length a" if "match_value a = Some (w, b)" for a w b
  proof (cases a)
    case Nil
    with that show ?thesis by (simp add: match_value_def)
  next
    case (Cons c cs)
    have q: "length (tl (dropWhile P cs)) < Suc (length cs)" for P
      by (metis length_dropWhile_le length_tl diff_le_self le_imp_less_Suc le_trans)
    have n: "length (dropWhile (\<lambda>x. \<not> is_space x) (c # cs)) < Suc (length cs)"
      if "\<not> is_space c"
      using that length_dropWhile_le [of "\<lambda>x. \<not> is_space x" cs] by simp
    from that Cons q n show ?thesis
      by (auto simp: match_value_def split: if_splits)
  qed
  from m obtain c t where
    d: "dropWhile is_space (dropWhile is_word s) = c # t"
    and mv: "match_value (dropWhile is_space t) = Some (v, r)"
    by (auto simp: match_pair_def Let_def split: if_splits list.splits option.splits)
  have "length r < length (dropWhile is_space t)" using val [OF mv] .
  also have "\<dots> \<le> length t" by (rule length_dropWhile_le)
  also have "\<dots> < length (c # t)" by simp
  also have "\<dots> \<le> length (dropWhile is_word s)"
    unfolding d [symmetric] by (rule length_dropWhile_le)
  also have "\<dots> \<le> length s" by (rule length_dropWhile_le)
  finally show "(r, s) \<in> measure length" by simp
qed

declare finditer.simps [simp del]

definition tokenize_args_segment :: "string \<Rightarrow> error + args" where
  "tokenize_args_segment segment =
     (let ms = finditer segment;
          args = foldl (\<lambda>a (k, v, r). AList.update k v a) [] ms;
          trailing = strip (if ms = [] then segment else snd (snd (last ms)))
      in if trailing \<noteq> [] then Inl InvalidArgument else Inr args)"

subsection \<open>Sorting and printing\<close>

text \<open>
  \<^verbatim>\<open>sorted(xs, key=key, reverse=reverse)\<close>. The sort is stable; with
  \<^verbatim>\<open>reverse=True\<close> the list is reversed, sorted stably and reversed again, so that
  elements with equal keys keep their original order in both directions. A stable
  sort of a list under a total order has one result, given here by insertion.
\<close>

definition py_sorted :: "('a \<Rightarrow> 'k::linorder) \<Rightarrow> bool \<Rightarrow> 'a list \<Rightarrow> 'a list" where
  "py_sorted key reverse xs =
     (if reverse then rev (sort_key key (rev xs)) else sort_key key xs)"

text \<open>
  The key for \<^verbatim>\<open>sort_by == "due"\<close>: \<^verbatim>\<open>(0, ordinal)\<close> for a date and
  \<^verbatim>\<open>(1, None)\<close> otherwise; the second component of the latter is always the same
  value, written 0 here.
\<close>

definition due_key :: "task \<Rightarrow> nat \<times> int" where
  "due_key t =
     (if task_due t = ''NONE'' then (1, 0)
      else case parse_date_str (task_due t) of
        Inr (Some d) \<Rightarrow> (0, toordinal d)
      | _ \<Rightarrow> (1, 0))"

definition prio_key :: "task \<Rightarrow> int" where
  "prio_key t = (case PRIORITY_ORDER (task_prio t) of Some n \<Rightarrow> n | None \<Rightarrow> 0)"

text \<open>
  \<^verbatim>\<open>sorted(tasks, key=sort_key_func(sort_by), reverse=reverse)\<close>, one branch for
  each key type. The key for \<^verbatim>\<open>ctime\<close> is the POSIX timestamp of the recorded local
  time (0 where the text does not parse), which depends on the time zone of the
  process: it is the parameter \<open>ts\<close>. A \<open>sort_by\<close> outside the nine properties
  gives every task the same key, the empty string.
\<close>

definition sorted_tasks ::
  "(string \<Rightarrow> int) \<Rightarrow> task list \<Rightarrow> string \<Rightarrow> string \<Rightarrow> task list" where
  "sorted_tasks ts xs sort_by direction =
     (let reverse = (direction = ''desc'') in
      if sort_by = ''name'' then py_sorted (\<lambda>t. lower (task_name t)) reverse xs
      else if sort_by = ''type'' then py_sorted (\<lambda>t. lower (task_type t)) reverse xs
      else if sort_by = ''desc'' then py_sorted (\<lambda>t. lower (task_desc t)) reverse xs
      else if sort_by = ''due'' then py_sorted due_key reverse xs
      else if sort_by = ''rep'' then py_sorted task_rep reverse xs
      else if sort_by = ''prio'' then py_sorted prio_key reverse xs
      else if sort_by = ''done'' then py_sorted task_done reverse xs
      else if sort_by = ''ctime'' then py_sorted (\<lambda>t. ts (task_ctime t)) reverse xs
      else if sort_by = ''id'' then py_sorted task_id reverse xs
      else py_sorted (\<lambda>t. ([] :: string)) reverse xs)"

definition row :: "task \<Rightarrow> string" where
  "row t =
     task_name t @ '' | '' @ task_type t @ '' | '' @ task_desc t @ '' | '' @ task_due t
     @ '' | '' @ task_rep t @ '' | '' @ task_prio t @ '' | '' @ str_bool (task_done t)
     @ '' | '' @ task_ctime t @ '' | '' @ str_int (task_id t)"

definition print_header_and_tasks ::
  "(string \<Rightarrow> int) \<Rightarrow> task list \<Rightarrow> string \<Rightarrow> string \<Rightarrow> string list" where
  "print_header_and_tasks ts xs sort_by direction =
     ''Name | Type | Desc | Due | Rep | Prio | Done | Ctime | Id''
     # concat (map (\<lambda>t. [row t, []]) (sorted_tasks ts xs sort_by direction))"

subsection \<open>Command handlers\<close>

text \<open>
  A handler takes the arguments, the original line and the store, and returns what it
  printed (\<open>Inr\<close>) or the exception it raised (\<open>Inl\<close>), with the store after it.
\<close>

type_synonym result = "(error + string list) \<times> store"

definition success :: "string \<Rightarrow> string" where
  "success original = ''Command success: '' @ original"

definition keys_allowed :: "string list \<Rightarrow> args \<Rightarrow> bool" where
  "keys_allowed allowed args = list_all (\<lambda>k. k \<in> set allowed) (map fst args)"

definition get :: "args \<Rightarrow> string \<Rightarrow> string \<Rightarrow> string" where
  "get args k dflt = (case map_of args k of Some v \<Rightarrow> v | None \<Rightarrow> dflt)"

definition cmd_help :: "string \<Rightarrow> string list" where
  "cmd_help original =
     [success original,
      ''help'',
      ''print [sort_by=<prop>] [direction=<asc|desc>]'',
      ''add name=<name> [type=<type>] [desc=<desc>] [due=<DD-MM-YYYY>] [rep=<NONE|DAILY|WEEKLY|MONTHLY>] [prio=<LOW|MEDIUM|HIGH>]'',
      ''list property=<prop> val=<value> [sort_by=<prop>] [direction=<asc|desc>]'',
      ''mod id=<id> property=<prop> new_val=<value>'',
      ''done id=<id>'',
      ''delete id=<id> | delete property=<prop> val=<value>'']"

definition validate_sort_args :: "args \<Rightarrow> error + string \<times> string" where
  "validate_sort_args args =
     (let sort_by = get args ''sort_by'' ''name'';
          direction = get args ''direction'' ''asc''
      in if direction \<notin> set VALID_DIRECTION then Inl InvalidArgument
         else if sort_by \<notin> set PROPERTIES then Inl InvalidArgument
         else Inr (sort_by, direction))"

definition cmd_print :: "(string \<Rightarrow> int) \<Rightarrow> args \<Rightarrow> string \<Rightarrow> store \<Rightarrow> result" where
  "cmd_print ts args original st =
     (if \<not> keys_allowed [''sort_by'', ''direction''] args then (Inl TooManyArguments, st)
      else case validate_sort_args args of
        Inl e \<Rightarrow> (Inl e, st)
      | Inr (sort_by, direction) \<Rightarrow>
          (Inr (success original # print_header_and_tasks ts (tasks st) sort_by direction),
           st))"

text \<open>
  \<open>now\<close> is the result of \<^verbatim>\<open>now_ctime_str()\<close>, the reading of the clock when the
  task is created.
\<close>

definition cmd_add :: "string \<Rightarrow> args \<Rightarrow> string \<Rightarrow> store \<Rightarrow> result" where
  "cmd_add now args original st =
     (if \<not> keys_allowed [''name'', ''type'', ''desc'', ''due'', ''rep'', ''prio''] args
      then (Inl TooManyArguments, st)
      else case map_of args ''name'' of
        None \<Rightarrow> (Inl MissingArguments, st)
      | Some name \<Rightarrow>
          if isdigit name then (Inl InvalidArgumentType, st)
          else
            let typ = get args ''type'' ''NONE'';
                desc = get args ''desc'' [];
                due_str = get args ''due'' ''NONE'';
                rep = get args ''rep'' ''NONE'';
                prio = get args ''prio'' ''MEDIUM''
            in if rep \<notin> set VALID_REPS then (Inl InvalidRepeat, st)
               else if prio \<notin> set VALID_PRIOS then (Inl InvalidPriority, st)
               else case (if due_str \<noteq> ''NONE'' then parse_date_str due_str else Inr None) of
                 Inl e \<Rightarrow> (Inl e, st)
               | Inr _ \<Rightarrow>
                   (Inr [success original],
                    \<lparr>tasks = tasks st @
                       [\<lparr>task_name = name, task_type = typ, task_desc = desc,
                         task_due = due_str, task_rep = rep, task_prio = prio,
                         task_done = False, task_ctime = now, task_id = next_id st\<rparr>],
                     next_id = next_id st + 1\<rparr>))"

text \<open>\<^verbatim>\<open>str(t.get(prop, ""))\<close>.\<close>

definition str_prop :: "string \<Rightarrow> task \<Rightarrow> string" where
  "str_prop prop t =
     (if prop = ''name'' then task_name t
      else if prop = ''type'' then task_type t
      else if prop = ''desc'' then task_desc t
      else if prop = ''due'' then task_due t
      else if prop = ''rep'' then task_rep t
      else if prop = ''prio'' then task_prio t
      else if prop = ''done'' then str_bool (task_done t)
      else if prop = ''ctime'' then task_ctime t
      else if prop = ''id'' then str_int (task_id t)
      else [])"

definition matches :: "string \<Rightarrow> string \<Rightarrow> task \<Rightarrow> bool" where
  "matches prop val t = (lower (str_prop prop t) = lower val)"

definition cmd_list :: "(string \<Rightarrow> int) \<Rightarrow> args \<Rightarrow> string \<Rightarrow> store \<Rightarrow> result" where
  "cmd_list ts args original st =
     (if \<not> keys_allowed [''property'', ''val'', ''sort_by'', ''direction''] args
      then (Inl TooManyArguments, st)
      else case (map_of args ''property'', map_of args ''val'') of
        (Some prop, Some val) \<Rightarrow>
          if prop \<notin> set PROPERTIES then (Inl InvalidArgument, st)
          else (case validate_sort_args args of
            Inl e \<Rightarrow> (Inl e, st)
          | Inr (sort_by, direction) \<Rightarrow>
              (Inr (success original
                    # print_header_and_tasks ts (filter (matches prop val) (tasks st))
                        sort_by direction),
               st))
      | _ \<Rightarrow> (Inl MissingArguments, st))"

text \<open>
  \<^verbatim>\<open>next((t for t in _tasks if t["id"] == idv), None)\<close> is \<^const>\<open>find\<close>; an
  assignment to a key of the task found changes that element of the list, the first
  with the id.
\<close>

fun update_first :: "('a \<Rightarrow> bool) \<Rightarrow> ('a \<Rightarrow> 'a) \<Rightarrow> 'a list \<Rightarrow> 'a list" where
  "update_first P f [] = []"
| "update_first P f (x # xs) = (if P x then f x # xs else x # update_first P f xs)"

definition modify :: "int \<Rightarrow> (task \<Rightarrow> task) \<Rightarrow> string \<Rightarrow> store \<Rightarrow> result" where
  "modify idv f original st =
     (Inr [success original], st\<lparr>tasks := update_first (\<lambda>t. task_id t = idv) f (tasks st)\<rparr>)"

text \<open>
  The second half of \<^verbatim>\<open>cmd_mod\<close>, from the comment \<^verbatim>\<open># Validate per-property\<close> on:
  the checks and the assignment for the property, once the task is found.
\<close>

definition mod_property :: "int \<Rightarrow> string \<Rightarrow> string \<Rightarrow> string \<Rightarrow> store \<Rightarrow> result" where
  "mod_property idv prop new_val original st =
     (if prop = ''due'' then
        (case parse_date_str new_val of
           Inl e \<Rightarrow> (Inl e, st)
         | Inr _ \<Rightarrow> modify idv (\<lambda>t. t\<lparr>task_due := new_val\<rparr>) original st)
      else if prop = ''rep'' then
        (if new_val \<notin> set VALID_REPS then (Inl InvalidRepeat, st)
         else modify idv (\<lambda>t. t\<lparr>task_rep := new_val\<rparr>) original st)
      else if prop = ''prio'' then
        (if new_val \<notin> set VALID_PRIOS then (Inl InvalidPriority, st)
         else modify idv (\<lambda>t. t\<lparr>task_prio := new_val\<rparr>) original st)
      else if prop = ''done'' then
        (case parse_bool_str new_val of
           Inl e \<Rightarrow> (Inl e, st)
         | Inr b \<Rightarrow> modify idv (\<lambda>t. t\<lparr>task_done := b\<rparr>) original st)
      else if prop = ''id'' then (Inl InvalidArgument, st)
      else if prop = ''ctime'' then (Inl InvalidArgument, st)
      else if prop = ''name'' \<and> isdigit new_val then (Inl InvalidArgumentType, st)
      else if prop = ''name'' then modify idv (\<lambda>t. t\<lparr>task_name := new_val\<rparr>) original st
      else if prop = ''type'' then modify idv (\<lambda>t. t\<lparr>task_type := new_val\<rparr>) original st
      else modify idv (\<lambda>t. t\<lparr>task_desc := new_val\<rparr>) original st)"

definition cmd_mod :: "args \<Rightarrow> string \<Rightarrow> store \<Rightarrow> result" where
  "cmd_mod args original st =
     (if \<not> keys_allowed [''id'', ''property'', ''new_val''] args
      then (Inl TooManyArguments, st)
      else case (map_of args ''id'', map_of args ''property'', map_of args ''new_val'') of
        (Some ids, Some prop, Some new_val) \<Rightarrow>
          (case py_int ids of
             None \<Rightarrow> (Inl InvalidArgumentType, st)
           | Some idv \<Rightarrow>
               if prop \<notin> set PROPERTIES then (Inl InvalidArgument, st)
               else case find (\<lambda>t. task_id t = idv) (tasks st) of
                 None \<Rightarrow> (Inl TaskNotFound, st)
               | Some task \<Rightarrow> mod_property idv prop new_val original st)
      | _ \<Rightarrow> (Inl MissingArguments, st))"

definition cmd_done :: "args \<Rightarrow> string \<Rightarrow> store \<Rightarrow> result" where
  "cmd_done args original st =
     (if \<not> keys_allowed [''id''] args then (Inl TooManyArguments, st)
      else case map_of args ''id'' of
        None \<Rightarrow> (Inl MissingArguments, st)
      | Some ids \<Rightarrow>
          (case py_int ids of
             None \<Rightarrow> (Inl InvalidArgumentType, st)
           | Some idv \<Rightarrow>
               (case find (\<lambda>t. task_id t = idv) (tasks st) of
                  None \<Rightarrow> (Inl TaskNotFound, st)
                | Some task \<Rightarrow> modify idv (\<lambda>t. t\<lparr>task_done := True\<rparr>) original st)))"

text \<open>
  \<^verbatim>\<open>next((i for i, t in enumerate(_tasks) if t["id"] == idv), None)\<close> and
  \<^verbatim>\<open>_tasks.pop(idx)\<close>.
\<close>

fun first_index :: "('a \<Rightarrow> bool) \<Rightarrow> 'a list \<Rightarrow> nat option" where
  "first_index P [] = None"
| "first_index P (x # xs) = (if P x then Some 0 else map_option Suc (first_index P xs))"

definition pop :: "nat \<Rightarrow> 'a list \<Rightarrow> 'a list" where
  "pop idx xs = take idx xs @ drop (Suc idx) xs"

definition cmd_delete :: "args \<Rightarrow> string \<Rightarrow> store \<Rightarrow> result" where
  "cmd_delete args original st =
     (if \<not> keys_allowed [''id'', ''property'', ''val''] args then (Inl TooManyArguments, st)
      else case map_of args ''id'' of
        Some ids \<Rightarrow>
          if map_of args ''property'' \<noteq> None \<or> map_of args ''val'' \<noteq> None
          then (Inl TooManyArguments, st)
          else (case py_int ids of
             None \<Rightarrow> (Inl InvalidArgumentType, st)
           | Some idv \<Rightarrow>
               (case first_index (\<lambda>t. task_id t = idv) (tasks st) of
                  None \<Rightarrow> (Inl TaskNotFound, st)
                | Some idx \<Rightarrow> (Inr [success original], st\<lparr>tasks := pop idx (tasks st)\<rparr>)))
      | None \<Rightarrow>
          (case (map_of args ''property'', map_of args ''val'') of
             (Some prop, Some val) \<Rightarrow>
               if prop \<notin> set PROPERTIES then (Inl InvalidArgument, st)
               else
                 let to_delete = filter (matches prop val) (tasks st) in
                 if to_delete = [] then (Inl TaskNotFound, st)
                 else (Inr [success original],
                       st\<lparr>tasks := filter (\<lambda>t. t \<notin> set to_delete) (tasks st)\<rparr>)
           | _ \<Rightarrow> (Inl MissingArguments, st)))"

subsection \<open>Processing a line\<close>

text \<open>
  What \<^verbatim>\<open>process_line\<close> does with a line: nothing (a blank line or a comment), a
  successful command with its output, a failure that it catches and prints itself as
  \<^verbatim>\<open>Error <kind>: <line>\<close>, or an exception that leaves \<^verbatim>\<open>process_line\<close>
  (raised before the dispatch) and is printed by \<^verbatim>\<open>run_from_file\<close>.
\<close>

datatype outcome = Ignored | Success "string list" | Failed error | Raised error

definition dispatch ::
  "(string \<Rightarrow> int) \<Rightarrow> string \<Rightarrow> string \<Rightarrow> args \<Rightarrow> string \<Rightarrow> store \<Rightarrow> result" where
  "dispatch ts now cmd args orig st =
     (if cmd = ''help'' then
        (if args \<noteq> [] then (Inl TooManyArguments, st) else (Inr (cmd_help orig), st))
      else if cmd = ''print'' then cmd_print ts args orig st
      else if cmd = ''add'' then cmd_add now args orig st
      else if cmd = ''list'' then cmd_list ts args orig st
      else if cmd = ''mod'' then cmd_mod args orig st
      else if cmd = ''done'' then cmd_done args orig st
      else if cmd = ''delete'' then cmd_delete args orig st
      else (Inl InvalidArgument, st))"

text \<open>
  The command word is the group of \<^verbatim>\<open>re.match(r"^\s*(\w+)", line)\<close>, the argument
  segment the stripped rest of the line.
\<close>

definition command_word :: "string \<Rightarrow> string" where
  "command_word line = takeWhile is_word (dropWhile is_space line)"

definition segment :: "string \<Rightarrow> string" where
  "segment line = strip (dropWhile is_word (dropWhile is_space line))"

definition execute ::
  "(string \<Rightarrow> int) \<Rightarrow> string \<Rightarrow> string \<Rightarrow> store \<Rightarrow> outcome \<times> store" where
  "execute ts now line st =
     (if command_word line = [] then (Raised InvalidArgument, st)
      else case (if segment line \<noteq> [] then tokenize_args_segment (segment line) else Inr []) of
        Inl e \<Rightarrow> (Raised e, st)
      | Inr args \<Rightarrow>
          (case dispatch ts now (command_word line) args line st of
             (Inl e, st') \<Rightarrow> (Failed e, st')
           | (Inr out, st') \<Rightarrow> (Success out, st')))"

definition process_line ::
  "(string \<Rightarrow> int) \<Rightarrow> string \<Rightarrow> string \<Rightarrow> store \<Rightarrow> outcome \<times> store" where
  "process_line ts now raw st =
     (let line = rstrip_nl raw in
      if strip line = [] then (Ignored, st)
      else if length line > 1024 then (Raised TooLongLine, st)
      else if hd (strip line) = CHR ''#'' then (Ignored, st)
      else execute ts now line st)"

definition error_name :: "error \<Rightarrow> string" where
  "error_name e =
     (case e of
        TooManyArguments \<Rightarrow> ''TooManyArguments''
      | InvalidArgument \<Rightarrow> ''InvalidArgument''
      | InvalidArgumentType \<Rightarrow> ''InvalidArgumentType''
      | MissingArguments \<Rightarrow> ''MissingArguments''
      | InvalidDateFormat \<Rightarrow> ''InvalidDateFormat''
      | InvalidRepeat \<Rightarrow> ''InvalidRepeat''
      | InvalidPriority \<Rightarrow> ''InvalidPriority''
      | TaskNotFound \<Rightarrow> ''TaskNotFound''
      | InvalidDoneStatus \<Rightarrow> ''InvalidDoneStatus''
      | UnknownCommand \<Rightarrow> ''UnknownCommand''
      | TooLongLine \<Rightarrow> ''TooLongLine'')"

text \<open>The text on standard output for a line, whoever prints it.\<close>

definition printed :: "string \<Rightarrow> outcome \<Rightarrow> string list" where
  "printed raw oc =
     (case oc of
        Ignored \<Rightarrow> []
      | Success out \<Rightarrow> out
      | Failed e \<Rightarrow> [''Error '' @ error_name e @ '': '' @ rstrip_nl raw]
      | Raised e \<Rightarrow> [''Error '' @ error_name e @ '': '' @ rstrip_nl raw])"

text \<open>Whether a line ended in an error line, and the kind of the error.\<close>

definition error_of :: "outcome \<Rightarrow> error option" where
  "error_of oc = (case oc of Failed e \<Rightarrow> Some e | Raised e \<Rightarrow> Some e | _ \<Rightarrow> None)"

text \<open>
  The loop of \<^verbatim>\<open>run_from_file\<close> over the lines of the file, each with the reading
  of the clock at the time it is processed: the output and the store at the end.
\<close>

fun run_from_file ::
  "(string \<Rightarrow> int) \<Rightarrow> (string \<times> string) list \<Rightarrow> store \<Rightarrow> string list \<times> store" where
  "run_from_file ts [] st = ([], st)"
| "run_from_file ts ((now, raw) # rest) st =
     (case process_line ts now raw st of
        (oc, st') \<Rightarrow>
          (case run_from_file ts rest st' of
             (out, st'') \<Rightarrow> (printed raw oc @ out, st'')))"

definition run :: "(string \<Rightarrow> int) \<Rightarrow> (string \<times> string) list \<Rightarrow> store" where
  "run ts ls = snd (run_from_file ts ls clear_state)"

text \<open>
  A line is a successful add when its command word is \<^verbatim>\<open>add\<close> and it succeeds;
  \<open>adds\<close> counts them over a run from a store.
\<close>

definition successful_add ::
  "(string \<Rightarrow> int) \<Rightarrow> string \<Rightarrow> string \<Rightarrow> store \<Rightarrow> bool" where
  "successful_add ts now raw st =
     (case fst (process_line ts now raw st) of
        Success out \<Rightarrow> command_word (rstrip_nl raw) = ''add''
      | _ \<Rightarrow> False)"

fun adds :: "(string \<Rightarrow> int) \<Rightarrow> (string \<times> string) list \<Rightarrow> store \<Rightarrow> nat" where
  "adds ts [] st = 0"
| "adds ts ((now, raw) # rest) st =
     (if successful_add ts now raw st then 1 else 0)
     + adds ts rest (snd (process_line ts now raw st))"

section \<open>Properties\<close>

subsection \<open>Updating the first task with an id\<close>

lemma update_first_map_id:
  "(\<And>t. task_id (f t) = task_id t) \<Longrightarrow>
     map task_id (update_first P f xs) = map task_id xs"
  by (induction xs) simp_all

lemma length_update_first: "length (update_first P f xs) = length xs"
  by (induction xs) simp_all

lemma find_update_first:
  "find P xs = Some x \<Longrightarrow> P (f x) \<Longrightarrow> find P (update_first P f xs) = Some (f x)"
  by (induction xs) (auto split: if_splits)

lemma filter_update_first:
  "(\<And>x. P x \<Longrightarrow> P (f x)) \<Longrightarrow>
     filter (\<lambda>t. \<not> P t) (update_first P f xs) = filter (\<lambda>t. \<not> P t) xs"
  by (induction xs) auto

lemma parse_bool_str_cases:
  "parse_bool_str v =
     (if v = ''True'' \<or> v = ''true'' then Inr True
      else if v = ''False'' \<or> v = ''false'' then Inr False
      else Inl InvalidDoneStatus)"
  by (simp add: parse_bool_str_def)

subsection \<open>Modifying a task\<close>

text \<open>
  C10. Let the arguments of \<^verbatim>\<open>mod\<close> be \<^verbatim>\<open>id\<close>, \<^verbatim>\<open>property=done\<close> and
  \<^verbatim>\<open>new_val=<v>\<close>, the text of the id one that \<^verbatim>\<open>int\<close> reads as \<open>i\<close>, and let the
  store have a task with id \<open>i\<close>. The command succeeds exactly when \<open>v\<close> is
  \<^verbatim>\<open>True\<close>, \<^verbatim>\<open>true\<close>, \<^verbatim>\<open>False\<close> or \<^verbatim>\<open>false\<close>, and then the first task with
  the id has \<^verbatim>\<open>done\<close> set to that value while every task with another id, the ids
  of all tasks, their number and the id counter are as before; for any other \<open>v\<close>
  the command fails with \<^verbatim>\<open>InvalidDoneStatus\<close> and the store is unchanged.
\<close>

theorem mod_done_status:
  assumes "keys_allowed [''id'', ''property'', ''new_val''] args"
    and "map_of args ''id'' = Some ids"
    and "map_of args ''property'' = Some ''done''"
    and "map_of args ''new_val'' = Some v"
    and "py_int ids = Some i"
    and "find (\<lambda>t. task_id t = i) (tasks st) = Some task"
  shows "cmd_mod args orig st =
     (if v = ''True'' \<or> v = ''true'' then
        (Inr [success orig],
         st\<lparr>tasks := update_first (\<lambda>t. task_id t = i) (\<lambda>t. t\<lparr>task_done := True\<rparr>) (tasks st)\<rparr>)
      else if v = ''False'' \<or> v = ''false'' then
        (Inr [success orig],
         st\<lparr>tasks := update_first (\<lambda>t. task_id t = i) (\<lambda>t. t\<lparr>task_done := False\<rparr>) (tasks st)\<rparr>)
      else (Inl InvalidDoneStatus, st))
    \<and> find (\<lambda>t. task_id t = i)
          (update_first (\<lambda>t. task_id t = i) (\<lambda>t. t\<lparr>task_done := b\<rparr>) (tasks st))
        = Some (task\<lparr>task_done := b\<rparr>)
    \<and> filter (\<lambda>t. task_id t \<noteq> i)
          (update_first (\<lambda>t. task_id t = i) (\<lambda>t. t\<lparr>task_done := b\<rparr>) (tasks st))
        = filter (\<lambda>t. task_id t \<noteq> i) (tasks st)
    \<and> length (update_first (\<lambda>t. task_id t = i) (\<lambda>t. t\<lparr>task_done := b\<rparr>) (tasks st))
        = length (tasks st)
    \<and> map task_id
          (update_first (\<lambda>t. task_id t = i) (\<lambda>t. t\<lparr>task_done := b\<rparr>) (tasks st))
        = map task_id (tasks st)"
proof (intro conjI)
  have "cmd_mod args orig st =
     (case parse_bool_str v of
        Inl e \<Rightarrow> (Inl e, st)
      | Inr b \<Rightarrow> modify i (\<lambda>t. t\<lparr>task_done := b\<rparr>) orig st)"
    using assms by (simp add: cmd_mod_def mod_property_def PROPERTIES_def)
  then show "cmd_mod args orig st =
     (if v = ''True'' \<or> v = ''true'' then
        (Inr [success orig],
         st\<lparr>tasks := update_first (\<lambda>t. task_id t = i) (\<lambda>t. t\<lparr>task_done := True\<rparr>) (tasks st)\<rparr>)
      else if v = ''False'' \<or> v = ''false'' then
        (Inr [success orig],
         st\<lparr>tasks := update_first (\<lambda>t. task_id t = i) (\<lambda>t. t\<lparr>task_done := False\<rparr>) (tasks st)\<rparr>)
      else (Inl InvalidDoneStatus, st))"
    by (simp add: parse_bool_str_cases modify_def)
  have "task_id task = i"
    using assms(6) by (auto simp: find_Some_iff)
  then show "find (\<lambda>t. task_id t = i)
           (update_first (\<lambda>t. task_id t = i) (\<lambda>t. t\<lparr>task_done := b\<rparr>) (tasks st))
         = Some (task\<lparr>task_done := b\<rparr>)"
    using assms(6) by (simp add: find_update_first)
  show "filter (\<lambda>t. task_id t \<noteq> i)
           (update_first (\<lambda>t. task_id t = i) (\<lambda>t. t\<lparr>task_done := b\<rparr>) (tasks st))
         = filter (\<lambda>t. task_id t \<noteq> i) (tasks st)"
    by (rule filter_update_first) simp
  show "length (update_first (\<lambda>t. task_id t = i) (\<lambda>t. t\<lparr>task_done := b\<rparr>) (tasks st))
        = length (tasks st)"
    by (rule length_update_first)
  show "map task_id
          (update_first (\<lambda>t. task_id t = i) (\<lambda>t. t\<lparr>task_done := b\<rparr>) (tasks st))
        = map task_id (tasks st)"
    by (rule update_first_map_id) simp
qed

theorem mod_done_status_witness:
  "keys_allowed [''id'', ''property'', ''new_val'']
     [(''id'', ''0''), (''property'', ''done''), (''new_val'', ''true'')]
   \<and> py_int ''0'' = Some 0
   \<and> cmd_mod [(''id'', ''0''), (''property'', ''done''), (''new_val'', ''true'')] ''mod''
       \<lparr>tasks = [\<lparr>task_name = ''A'', task_type = ''NONE'', task_desc = [], task_due = ''NONE'',
                  task_rep = ''NONE'', task_prio = ''MEDIUM'', task_done = False,
                  task_ctime = ''now'', task_id = 0\<rparr>], next_id = 1\<rparr>
     = (Inr [success ''mod''],
        \<lparr>tasks = [\<lparr>task_name = ''A'', task_type = ''NONE'', task_desc = [], task_due = ''NONE'',
                  task_rep = ''NONE'', task_prio = ''MEDIUM'', task_done = True,
                  task_ctime = ''now'', task_id = 0\<rparr>], next_id = 1\<rparr>)"
proof -
  have k: "keys_allowed [''id'', ''property'', ''new_val'']
     [(''id'', ''0''), (''property'', ''done''), (''new_val'', ''true'')]"
    by (simp add: keys_allowed_def)
  have p: "py_int ''0'' = Some 0"
    by code_simp
  show ?thesis
    using k p
      mod_done_status [OF k _ _ _ p, of "''true''"
        "\<lparr>tasks = [\<lparr>task_name = ''A'', task_type = ''NONE'', task_desc = [], task_due = ''NONE'',
                  task_rep = ''NONE'', task_prio = ''MEDIUM'', task_done = False,
                  task_ctime = ''now'', task_id = 0\<rparr>], next_id = 1\<rparr>"
        "\<lparr>task_name = ''A'', task_type = ''NONE'', task_desc = [], task_due = ''NONE'',
                  task_rep = ''NONE'', task_prio = ''MEDIUM'', task_done = False,
                  task_ctime = ''now'', task_id = 0\<rparr>" "''mod''" True]
    by simp
qed

text \<open>
  C7. Let the arguments of \<^verbatim>\<open>mod\<close> be \<^verbatim>\<open>id\<close>, \<^verbatim>\<open>property\<close> and \<^verbatim>\<open>new_val\<close>,
  the text of the id one that \<^verbatim>\<open>int\<close> reads as \<open>i\<close>, and let the store have a task
  with id \<open>i\<close>. With \<^verbatim>\<open>property=id\<close> and with \<^verbatim>\<open>property=ctime\<close> the command
  fails with \<^verbatim>\<open>InvalidArgument\<close> whatever the new value is, and the store (every
  field of every task, and the id counter) is as before.
\<close>

theorem mod_id_ctime_rejected:
  assumes "keys_allowed [''id'', ''property'', ''new_val''] args"
    and "map_of args ''id'' = Some ids"
    and "map_of args ''property'' = Some prop"
    and "prop = ''id'' \<or> prop = ''ctime''"
    and "map_of args ''new_val'' = Some v"
    and "py_int ids = Some i"
    and "find (\<lambda>t. task_id t = i) (tasks st) = Some task"
  shows "cmd_mod args orig st = (Inl InvalidArgument, st)"
  using assms by (auto simp: cmd_mod_def mod_property_def PROPERTIES_def)

theorem mod_id_ctime_rejected_witness:
  "keys_allowed [''id'', ''property'', ''new_val'']
     [(''id'', ''0''), (''property'', ''ctime''), (''new_val'', ''1-1-2000 00:00:00'')]
   \<and> py_int ''0'' = Some 0
   \<and> cmd_mod [(''id'', ''0''), (''property'', ''ctime''), (''new_val'', ''1-1-2000 00:00:00'')]
       ''mod''
       \<lparr>tasks = [\<lparr>task_name = ''A'', task_type = ''NONE'', task_desc = [], task_due = ''NONE'',
                  task_rep = ''NONE'', task_prio = ''MEDIUM'', task_done = False,
                  task_ctime = ''now'', task_id = 0\<rparr>], next_id = 1\<rparr>
     = (Inl InvalidArgument,
        \<lparr>tasks = [\<lparr>task_name = ''A'', task_type = ''NONE'', task_desc = [], task_due = ''NONE'',
                  task_rep = ''NONE'', task_prio = ''MEDIUM'', task_done = False,
                  task_ctime = ''now'', task_id = 0\<rparr>], next_id = 1\<rparr>)"
proof -
  have k: "keys_allowed [''id'', ''property'', ''new_val'']
     [(''id'', ''0''), (''property'', ''ctime''), (''new_val'', ''1-1-2000 00:00:00'')]"
    by (simp add: keys_allowed_def)
  have p: "py_int ''0'' = Some 0"
    by code_simp
  show ?thesis
    using k p
      mod_id_ctime_rejected [OF k _ _ _ _ p, of "''ctime''" "''1-1-2000 00:00:00''"
        "\<lparr>tasks = [\<lparr>task_name = ''A'', task_type = ''NONE'', task_desc = [], task_due = ''NONE'',
                  task_rep = ''NONE'', task_prio = ''MEDIUM'', task_done = False,
                  task_ctime = ''now'', task_id = 0\<rparr>], next_id = 1\<rparr>"
        "\<lparr>task_name = ''A'', task_type = ''NONE'', task_desc = [], task_due = ''NONE'',
                  task_rep = ''NONE'', task_prio = ''MEDIUM'', task_done = False,
                  task_ctime = ''now'', task_id = 0\<rparr>" "''mod''"]
    by simp
qed

subsection \<open>Failures leave the store alone\<close>

text \<open>Every handler either leaves the store as it is or prints its success.\<close>

lemma cmd_print_store: "snd (cmd_print ts args orig st) = st"
  by (simp add: cmd_print_def split: sum.split prod.split)

lemma cmd_list_store: "snd (cmd_list ts args orig st) = st"
  by (simp add: cmd_list_def split: sum.split prod.split option.split)

lemma cmd_add_cases:
  "snd (cmd_add now args orig st) = st \<or> (\<exists>out. fst (cmd_add now args orig st) = Inr out)"
  by (simp add: cmd_add_def Let_def split: option.split sum.split)

lemma mod_property_cases:
  "snd (mod_property i prop v orig st) = st
   \<or> (\<exists>out. fst (mod_property i prop v orig st) = Inr out)"
  by (simp add: mod_property_def modify_def split: sum.split)

lemma cmd_mod_cases:
  "snd (cmd_mod args orig st) = st \<or> (\<exists>out. fst (cmd_mod args orig st) = Inr out)"
  using mod_property_cases by (simp add: cmd_mod_def split: option.split)

lemma cmd_done_cases:
  "snd (cmd_done args orig st) = st \<or> (\<exists>out. fst (cmd_done args orig st) = Inr out)"
  by (simp add: cmd_done_def modify_def split: option.split)

lemma cmd_delete_cases:
  "snd (cmd_delete args orig st) = st \<or> (\<exists>out. fst (cmd_delete args orig st) = Inr out)"
  by (simp add: cmd_delete_def Let_def split: option.split)

lemma dispatch_cases:
  "snd (dispatch ts now cmd args orig st) = st
   \<or> (\<exists>out. fst (dispatch ts now cmd args orig st) = Inr out)"
  using cmd_add_cases [of now args orig st] cmd_mod_cases [of args orig st]
    cmd_done_cases [of args orig st] cmd_delete_cases [of args orig st]
  by (simp add: dispatch_def cmd_print_store cmd_list_store)

lemma execute_error:
  assumes "error_of (fst (execute ts now line st)) = Some e"
  shows "snd (execute ts now line st) = st"
proof (cases "command_word line = []")
  case True
  then show ?thesis by (simp add: execute_def)
next
  case False
  show ?thesis
  proof (cases "if segment line \<noteq> [] then tokenize_args_segment (segment line) else Inr []")
    case (Inl e')
    with False show ?thesis by (simp add: execute_def)
  next
    case (Inr args)
    obtain r st' where d: "dispatch ts now (command_word line) args line st = (r, st')"
      by (cases "dispatch ts now (command_word line) args line st")
    with False Inr assms obtain e' where "r = Inl e'"
      by (cases r) (simp_all add: execute_def error_of_def)
    with d dispatch_cases [of ts now "command_word line" args line st] have "st' = st"
      by simp
    with False Inr d \<open>r = Inl e'\<close> show ?thesis by (simp add: execute_def)
  qed
qed

text \<open>
  C3. Whenever a line ends in an error, of any kind and whether \<^verbatim>\<open>process_line\<close>
  prints it or raises it to its caller, what is printed for the line is the one error
  line \<^verbatim>\<open>Error <kind>: <line>\<close>, and the task list and the id counter after the line
  are those before it.
\<close>

theorem failure_keeps_store:
  assumes "error_of (fst (process_line ts now raw st)) = Some e"
  shows "snd (process_line ts now raw st) = st
    \<and> printed raw (fst (process_line ts now raw st))
        = [''Error '' @ error_name e @ '': '' @ rstrip_nl raw]"
proof
  show "snd (process_line ts now raw st) = st"
    using assms execute_error [of ts now "rstrip_nl raw" st e]
    by (simp add: process_line_def Let_def split: if_splits)
  show "printed raw (fst (process_line ts now raw st))
        = [''Error '' @ error_name e @ '': '' @ rstrip_nl raw]"
    using assms by (cases "fst (process_line ts now raw st)") (simp_all add: error_of_def printed_def)
qed

theorem failure_keeps_store_witness:
  "error_of (fst (process_line (\<lambda>c. 0) ''4-11-2026 10:00:00'' ''delete id=999'' clear_state))
     = Some TaskNotFound
   \<and> snd (process_line (\<lambda>c. 0) ''4-11-2026 10:00:00'' ''delete id=999'' clear_state)
     = clear_state
   \<and> printed ''delete id=999''
       (fst (process_line (\<lambda>c. 0) ''4-11-2026 10:00:00'' ''delete id=999'' clear_state))
     = [''Error TaskNotFound: delete id=999'']"
proof -
  have e: "error_of (fst (process_line (\<lambda>c. 0) ''4-11-2026 10:00:00'' ''delete id=999''
      clear_state)) = Some TaskNotFound"
    by code_simp
  have r: "rstrip_nl ''delete id=999'' = ''delete id=999''"
    by code_simp
  from e failure_keeps_store [OF e] r show ?thesis by (simp add: error_name_def)
qed

lemma parse_date_str_error: "parse_date_str s = Inl e \<Longrightarrow> e = InvalidDateFormat"
  by (simp add: parse_date_str_def Let_def split: if_splits option.splits prod.splits)

lemma parse_bool_str_error: "parse_bool_str s = Inl e \<Longrightarrow> e = InvalidDoneStatus"
  by (simp add: parse_bool_str_def split: if_splits)

lemma validate_sort_args_error: "validate_sort_args args = Inl e \<Longrightarrow> e = InvalidArgument"
  by (simp add: validate_sort_args_def Let_def split: if_splits)

lemma tokenize_error: "tokenize_args_segment s = Inl e \<Longrightarrow> e = InvalidArgument"
  by (simp add: tokenize_args_segment_def Let_def split: if_splits)

lemma cmd_print_limit: "fst (cmd_print ts args orig st) \<noteq> Inl TooLongLine"
proof (cases "validate_sort_args args")
  case (Inl e)
  with validate_sort_args_error [OF Inl] show ?thesis by (simp add: cmd_print_def)
next
  case (Inr p)
  then show ?thesis by (cases p) (simp add: cmd_print_def)
qed

lemma cmd_list_limit: "fst (cmd_list ts args orig st) \<noteq> Inl TooLongLine"
proof (cases "validate_sort_args args")
  case (Inl e)
  with validate_sort_args_error [OF Inl] show ?thesis
    by (simp add: cmd_list_def split: option.split)
next
  case (Inr p)
  then show ?thesis by (cases p) (simp add: cmd_list_def split: option.split)
qed

lemma cmd_add_limit: "fst (cmd_add now args orig st) \<noteq> Inl TooLongLine"
proof (cases "parse_date_str (get args ''due'' ''NONE'')")
  case (Inl e)
  with parse_date_str_error [OF Inl] show ?thesis
    by (simp add: cmd_add_def Let_def split: option.split)
next
  case (Inr d)
  then show ?thesis by (simp add: cmd_add_def Let_def split: option.split)
qed

lemma mod_property_limit: "fst (mod_property i prop v orig st) \<noteq> Inl TooLongLine"
proof -
  have d: "fst (case parse_date_str v of
                  Inl e \<Rightarrow> (Inl e, st)
                | Inr x \<Rightarrow> modify i (\<lambda>t. t\<lparr>task_due := v\<rparr>) orig st) \<noteq> Inl TooLongLine"
    using parse_date_str_error [of v] by (cases "parse_date_str v") (auto simp: modify_def)
  have b: "fst (case parse_bool_str v of
                  Inl e \<Rightarrow> (Inl e, st)
                | Inr b \<Rightarrow> modify i (\<lambda>t. t\<lparr>task_done := b\<rparr>) orig st) \<noteq> Inl TooLongLine"
    using parse_bool_str_error [of v] by (cases "parse_bool_str v") (auto simp: modify_def)
  have m: "fst (modify i f orig st) \<noteq> Inl TooLongLine" for f
    by (simp add: modify_def)
  show ?thesis
    unfolding mod_property_def using d b m by simp
qed

lemma cmd_mod_limit: "fst (cmd_mod args orig st) \<noteq> Inl TooLongLine"
  using mod_property_limit by (simp add: cmd_mod_def split: option.split)

lemma cmd_done_limit: "fst (cmd_done args orig st) \<noteq> Inl TooLongLine"
  by (simp add: cmd_done_def modify_def split: option.split)

lemma cmd_delete_limit: "fst (cmd_delete args orig st) \<noteq> Inl TooLongLine"
  by (simp add: cmd_delete_def Let_def split: option.split)

lemma dispatch_limit: "fst (dispatch ts now cmd args orig st) \<noteq> Inl TooLongLine"
  by (simp add: dispatch_def cmd_print_limit cmd_list_limit cmd_add_limit cmd_mod_limit
      cmd_done_limit cmd_delete_limit)

lemma execute_limit: "error_of (fst (execute ts now line st)) \<noteq> Some TooLongLine"
proof (cases "command_word line = []")
  case True
  then show ?thesis by (simp add: execute_def error_of_def)
next
  case False
  show ?thesis
  proof (cases "if segment line \<noteq> [] then tokenize_args_segment (segment line) else Inr []")
    case (Inl e)
    then have "e = InvalidArgument"
      using tokenize_error [of "segment line" e] by (simp split: if_splits)
    with False Inl show ?thesis by (simp add: execute_def error_of_def)
  next
    case (Inr args)
    obtain r st' where d: "dispatch ts now (command_word line) args line st = (r, st')"
      by (cases "dispatch ts now (command_word line) args line st")
    with dispatch_limit [of ts now "command_word line" args line st]
    have "r \<noteq> Inl TooLongLine" by simp
    with False Inr d show ?thesis
      by (cases r) (simp_all add: execute_def error_of_def)
  qed
qed
text \<open>
  C5, as stated, fails on a blank line: the test for a blank line comes before the
  test of the length, so a line of 1025 spaces is longer than 1024 characters and is
  silently ignored; nothing is printed for it.
\<close>

theorem long_blank_line_ignored:
  "1024 < length (rstrip_nl (replicate 1025 (CHR '' '')))
   \<and> process_line (\<lambda>c. 0) ''4-11-2026 10:00:00'' (replicate 1025 (CHR '' '')) clear_state
       = (Ignored, clear_state)
   \<and> printed (replicate 1025 (CHR '' ''))
        (fst (process_line (\<lambda>c. 0) ''4-11-2026 10:00:00'' (replicate 1025 (CHR '' ''))
           clear_state)) = []"
proof -
  have r: "rstrip_nl (replicate 1025 (CHR '' '')) = replicate 1025 (CHR '' '')"
    by (simp add: rstrip_nl_def)
  have s: "strip (replicate 1025 (CHR '' '')) = []"
    by (simp add: strip_def is_space_def between_def)
  show ?thesis
    by (simp add: process_line_def r s printed_def)
qed

text \<open>
  C5, amended. A line that is blank once its trailing newlines are removed is ignored
  whatever its length. A line that is not blank and is longer than 1024 characters, a
  comment included, fails with \<^verbatim>\<open>TooLongLine\<close> before the command word is matched
  and before any tokenization: the result does not depend on the rest of the line,
  the one error line is printed and the store is unchanged. A line of at most 1024
  characters never fails with \<^verbatim>\<open>TooLongLine\<close>, and when it is neither blank nor a
  comment it goes on to the match of the command word and the tokenization.
\<close>

theorem line_length_limit:
  "(strip (rstrip_nl raw) = [] \<longrightarrow> process_line ts now raw st = (Ignored, st))
   \<and> (strip (rstrip_nl raw) \<noteq> [] \<and> 1024 < length (rstrip_nl raw) \<longrightarrow>
        process_line ts now raw st = (Raised TooLongLine, st)
        \<and> printed raw (fst (process_line ts now raw st))
            = [''Error TooLongLine: '' @ rstrip_nl raw])
   \<and> (length (rstrip_nl raw) \<le> 1024 \<longrightarrow>
        error_of (fst (process_line ts now raw st)) \<noteq> Some TooLongLine)
   \<and> (strip (rstrip_nl raw) \<noteq> [] \<and> length (rstrip_nl raw) \<le> 1024
        \<and> hd (strip (rstrip_nl raw)) \<noteq> CHR ''#'' \<longrightarrow>
        process_line ts now raw st = execute ts now (rstrip_nl raw) st)"
proof (intro conjI impI)
  show "process_line ts now raw st = (Ignored, st)" if "strip (rstrip_nl raw) = []"
    using that by (simp add: process_line_def)
  show "process_line ts now raw st = (Raised TooLongLine, st)"
    if "strip (rstrip_nl raw) \<noteq> [] \<and> 1024 < length (rstrip_nl raw)"
    using that by (simp add: process_line_def)
  show "printed raw (fst (process_line ts now raw st)) = [''Error TooLongLine: '' @ rstrip_nl raw]"
    if "strip (rstrip_nl raw) \<noteq> [] \<and> 1024 < length (rstrip_nl raw)"
    using that by (simp add: process_line_def printed_def error_name_def)
  show "error_of (fst (process_line ts now raw st)) \<noteq> Some TooLongLine"
    if "length (rstrip_nl raw) \<le> 1024"
    using that execute_limit [of ts now "rstrip_nl raw" st]
    by (simp add: process_line_def Let_def error_of_def)
  show "process_line ts now raw st = execute ts now (rstrip_nl raw) st"
    if "strip (rstrip_nl raw) \<noteq> [] \<and> length (rstrip_nl raw) \<le> 1024
        \<and> hd (strip (rstrip_nl raw)) \<noteq> CHR ''#''"
    using that by (simp add: process_line_def)
qed
theorem line_length_limit_witness:
  "process_line (\<lambda>c. 0) ''4-11-2026 10:00:00'' ''  '' clear_state = (Ignored, clear_state)
   \<and> process_line (\<lambda>c. 0) ''4-11-2026 10:00:00'' (replicate 1025 (CHR ''x'')) clear_state
       = (Raised TooLongLine, clear_state)
   \<and> printed (replicate 1025 (CHR ''x''))
        (fst (process_line (\<lambda>c. 0) ''4-11-2026 10:00:00'' (replicate 1025 (CHR ''x''))
           clear_state))
       = [''Error TooLongLine: '' @ replicate 1025 (CHR ''x'')]
   \<and> length (rstrip_nl (replicate 1024 (CHR ''x''))) = 1024
   \<and> error_of (fst (process_line (\<lambda>c. 0) ''4-11-2026 10:00:00'' (replicate 1024 (CHR ''x''))
           clear_state)) \<noteq> Some TooLongLine
   \<and> process_line (\<lambda>c. 0) ''4-11-2026 10:00:00'' (replicate 1024 (CHR ''x'')) clear_state
       = execute (\<lambda>c. 0) ''4-11-2026 10:00:00'' (replicate 1024 (CHR ''x'')) clear_state"
proof -
  have b: "strip (rstrip_nl ''  '') = []"
    by code_simp
  have r: "rstrip_nl (replicate n (CHR ''x'')) = replicate n (CHR ''x'')" for n
    by (simp add: rstrip_nl_def)
  have s: "strip (replicate n (CHR ''x'')) = replicate n (CHR ''x'')" for n
    by (simp add: strip_def is_space_def between_def)
  note t = line_length_limit [of _ "\<lambda>c. 0" "''4-11-2026 10:00:00''" clear_state]
  have 1: "process_line (\<lambda>c. 0) ''4-11-2026 10:00:00'' ''  '' clear_state
      = (Ignored, clear_state)"
    using b t [of "''  ''"] by blast
  have 2: "process_line (\<lambda>c. 0) ''4-11-2026 10:00:00'' (replicate 1025 (CHR ''x'')) clear_state
       = (Raised TooLongLine, clear_state)
     \<and> printed (replicate 1025 (CHR ''x''))
        (fst (process_line (\<lambda>c. 0) ''4-11-2026 10:00:00'' (replicate 1025 (CHR ''x''))
           clear_state))
       = [''Error TooLongLine: '' @ replicate 1025 (CHR ''x'')]"
    using t [of "replicate 1025 (CHR ''x'')"]
    by (simp only: r s) (simp add: printed_def error_name_def r)
  have 3: "error_of (fst (process_line (\<lambda>c. 0) ''4-11-2026 10:00:00''
        (replicate 1024 (CHR ''x'')) clear_state)) \<noteq> Some TooLongLine"
    using t [of "replicate 1024 (CHR ''x'')"] by (simp only: r) simp
  have 4: "process_line (\<lambda>c. 0) ''4-11-2026 10:00:00'' (replicate 1024 (CHR ''x'')) clear_state
       = execute (\<lambda>c. 0) ''4-11-2026 10:00:00'' (replicate 1024 (CHR ''x'')) clear_state"
    using t [of "replicate 1024 (CHR ''x'')"] by (simp only: r s) simp
  have 5: "length (rstrip_nl (replicate 1024 (CHR ''x''))) = 1024"
    by (simp add: r)
  from 1 2 3 4 5 show ?thesis by blast
qed

subsection \<open>Repeated keys in a segment\<close>

text \<open>The dictionary built from the matches, starting from a dictionary \<open>acc\<close>.\<close>

lemma foldl_update_other:
  "k \<notin> set (map fst ms) \<Longrightarrow>
     map_of (foldl (\<lambda>a (k, v, r). AList.update k v a) acc ms) k = map_of acc k"
  by (induction ms arbitrary: acc) (auto simp: update_conv')

lemma foldl_update_distinct:
  "distinct (map fst acc) \<Longrightarrow>
     distinct (map fst (foldl (\<lambda>a (k, v, r). AList.update k v a) acc ms))"
  by (induction ms arbitrary: acc) (auto simp: distinct_update)

lemma foldl_update_keys:
  "fst ` set (foldl (\<lambda>a (k, v, r). AList.update k v a) acc ms)
     = fst ` set acc \<union> fst ` set ms"
proof (induction ms arbitrary: acc)
  case Nil
  show ?case by simp
next
  case (Cons m ms)
  obtain k v r where m: "m = (k, v, r)" by (cases m)
  have "fst ` set (foldl (\<lambda>a (k, v, r). AList.update k v a) (AList.update k v acc) ms)
      = fst ` set (AList.update k v acc) \<union> fst ` set ms"
    by (rule Cons.IH)
  also have "\<dots> = fst ` set acc \<union> fst ` set (m # ms)"
    by (simp add: dom_update m)
  finally show ?case by (simp add: m)
qed

text \<open>
  C9. Let the matches of the pattern in a segment be \<open>before\<close>, then a match of
  key \<open>k\<close> with value \<open>v\<close>, then \<open>after\<close>, where no match in \<open>after\<close> has the
  key \<open>k\<close>: the match of \<open>k\<close> with \<open>v\<close> is the last occurrence of the key,
  however many matches in \<open>before\<close> have it. If only white space follows the last
  match, the tokenizer returns a mapping, which binds \<open>k\<close> to \<open>v\<close>, has each key
  once and has the keys of the matches. Otherwise the tokenizer raises
  \<^verbatim>\<open>InvalidArgument\<close> and there is no mapping.
\<close>

theorem last_occurrence_wins:
  assumes "finditer s = before @ (k, v, r) # after"
    and "k \<notin> set (map fst after)"
  shows "(strip (snd (snd (last (finditer s)))) = [] \<longrightarrow>
            (\<exists>args. tokenize_args_segment s = Inr args
               \<and> map_of args k = Some v
               \<and> distinct (map fst args)
               \<and> set (map fst args) = set (map fst (finditer s))))
    \<and> (strip (snd (snd (last (finditer s)))) \<noteq> [] \<longrightarrow>
            tokenize_args_segment s = Inl InvalidArgument)"
proof (intro conjI impI)
  let ?args = "foldl (\<lambda>a (k, v, r). AList.update k v a) [] (finditer s)"
  have ne: "finditer s \<noteq> []"
    using assms(1) by simp
  assume "strip (snd (snd (last (finditer s)))) = []"
  with ne have t: "tokenize_args_segment s = Inr ?args"
    by (simp add: tokenize_args_segment_def)
  have "map_of ?args k = Some v"
    unfolding assms(1) using assms(2) by (simp add: foldl_update_other update_conv')
  moreover have "distinct (map fst ?args)"
    by (rule foldl_update_distinct) simp
  moreover have "set (map fst ?args) = set (map fst (finditer s))"
    by (simp add: foldl_update_keys)
  ultimately show "\<exists>args. tokenize_args_segment s = Inr args
               \<and> map_of args k = Some v
               \<and> distinct (map fst args)
               \<and> set (map fst args) = set (map fst (finditer s))"
    using t by blast
next
  have ne: "finditer s \<noteq> []"
    using assms(1) by simp
  assume "strip (snd (snd (last (finditer s)))) \<noteq> []"
  with ne show "tokenize_args_segment s = Inl InvalidArgument"
    by (simp add: tokenize_args_segment_def)
qed

theorem last_occurrence_wins_witness:
  "finditer ''a=1 b=2 a=3''
       = [(''a'', ''1'', '' b=2 a=3''), (''b'', ''2'', '' a=3'')] @ (''a'', ''3'', []) # []
   \<and> tokenize_args_segment ''a=1 b=2 a=3'' = Inr [(''a'', ''3''), (''b'', ''2'')]
   \<and> map_of [(''a'', ''3''), (''b'', ''2'')] ''a'' = Some ''3''
   \<and> finditer ''a=1 a=2 junk'' = [(''a'', ''1'', '' a=2 junk'')] @ (''a'', ''2'', '' junk'') # []
   \<and> tokenize_args_segment ''a=1 a=2 junk'' = Inl InvalidArgument"
proof -
  have f: "finditer ''a=1 b=2 a=3''
       = [(''a'', ''1'', '' b=2 a=3''), (''b'', ''2'', '' a=3'')] @ (''a'', ''3'', []) # []"
    by code_simp
  have g: "finditer ''a=1 a=2 junk''
       = [(''a'', ''1'', '' a=2 junk'')] @ (''a'', ''2'', '' junk'') # []"
    by code_simp
  have s1: "strip [] = []"
    by (simp add: strip_def)
  have s2: "strip '' junk'' \<noteq> []"
    by code_simp
  have "\<exists>args. tokenize_args_segment ''a=1 b=2 a=3'' = Inr args \<and> map_of args ''a'' = Some ''3''"
    using last_occurrence_wins [OF f] s1 by (simp add: f) blast
  moreover have "tokenize_args_segment ''a=1 b=2 a=3'' = Inr [(''a'', ''3''), (''b'', ''2'')]"
    by code_simp
  moreover have "tokenize_args_segment ''a=1 a=2 junk'' = Inl InvalidArgument"
    using last_occurrence_wins [OF g] s2 by (simp add: g)
  ultimately show ?thesis using f g by simp
qed

end
